theory Spec2Isabelle
  imports Main
begin

section \<open>Run-time values\<close>

text \<open>
  The component is written in TypeScript, but its arguments arrive from an untyped template,
  and the constructor checks two of them at run time. Those two arguments are therefore
  modelled as untyped JavaScript values. \<open>JObj n\<close> is the object or array with
  identity \<open>n\<close>; \<open>JNum\<close> holds the integral numbers and \<open>JNaN\<close> the not-a-number value.
\<close>

datatype jsval =
    JUndefined
  | JNull
  | JBool bool
  | JNum int
  | JNaN
  | JStr string
  | JObj nat

text \<open>JavaScript's truthiness, which is what \<open>||\<close> and \<open>if\<close> test.\<close>

fun truthy :: "jsval \<Rightarrow> bool" where
  "truthy JUndefined = False"
| "truthy JNull = False"
| "truthy (JBool b) = b"
| "truthy (JNum n) = (n \<noteq> 0)"
| "truthy JNaN = False"
| "truthy (JStr s) = (s \<noteq> [])"
| "truthy (JObj n) = True"

fun typeof :: "jsval \<Rightarrow> string" where
  "typeof JUndefined = ''undefined''"
| "typeof JNull = ''object''"
| "typeof (JBool b) = ''boolean''"
| "typeof (JNum n) = ''number''"
| "typeof JNaN = ''number''"
| "typeof (JStr s) = ''string''"
| "typeof (JObj n) = ''object''"

text \<open>\<open>a || b\<close> on untyped values.\<close>

definition js_or :: "jsval \<Rightarrow> jsval \<Rightarrow> jsval" where
  "js_or a b = (if truthy a then a else b)"

text \<open>
  \<open>a || d\<close> on an optional string (\<open>None\<close> is \<open>undefined\<close> or \<open>null\<close>): the empty string is
  falsy, so it is replaced by the default as well.
\<close>

definition or_string :: "string option \<Rightarrow> string \<Rightarrow> string" where
  "or_string a d = (case a of None \<Rightarrow> d | Some v \<Rightarrow> if v \<noteq> [] then v else d)"

text \<open>\<open>a || null\<close> on an optional string.\<close>

definition or_null :: "string option \<Rightarrow> string option" where
  "or_null a = (case a of None \<Rightarrow> None | Some v \<Rightarrow> if v \<noteq> [] then Some v else None)"

text \<open>\<open>a || false\<close> on an optional boolean.\<close>

definition or_false :: "bool option \<Rightarrow> bool" where
  "or_false a = (case a of None \<Rightarrow> False | Some b \<Rightarrow> b)"

text \<open>\<open>a || d\<close> on an optional array: every array, also the empty one, is truthy.\<close>

definition or_array :: "'a list option \<Rightarrow> 'a list \<Rightarrow> 'a list" where
  "or_array a d = (case a of None \<Rightarrow> d | Some xs \<Rightarrow> xs)"

text \<open>
  Ember's \<open>isPresent\<close>, on the only type it is applied to here (an optional boolean): a
  boolean is present, \<open>undefined\<close> is not.
\<close>

definition isPresent :: "bool option \<Rightarrow> bool" where
  "isPresent a = (a \<noteq> None)"


section \<open>Data model\<close>

text \<open>The interface \<open>PhoneInputArgs\<close>. The two callbacks are recorded by their presence.\<close>

record PhoneInputArgs =
  arg_number :: "string option"
  arg_update :: bool
  arg_country :: "string option"
  arg_disabled :: "bool option"
  arg_required :: "bool option"
  arg_autocomplete :: "string option"
  arg_allowDropdown :: "bool option"
  arg_autoPlaceholder :: jsval
  arg_customPlaceholder :: jsval
  arg_initialCountry :: "string option"
  arg_onlyCountries :: "string list option"
  arg_preferredCountries :: "string list option"
  arg_separateDialCode :: "bool option"
  arg_onError :: bool

text \<open>The country descriptor of the wrapped library; \<open>iso2\<close> is absent while no country is selected.\<close>

record CountryData =
  iso2 :: "string option"
  name :: "string option"
  dialCode :: "string option"

text \<open>The format kinds \<open>intlTelInputUtils.numberFormat\<close>.\<close>

datatype formatKind = NF_E164 | NF_INTERNATIONAL | NF_NATIONAL | NF_RFC3966

record NumberFormat =
  E164 :: string
  INTERNATIONAL :: string
  NATIONAL :: string
  RFC3966 :: string

text \<open>
  The interface \<open>MetaData\<close>. \<open>EmptyObject\<close> is the object \<open>{}\<close> that \<open>metaData\<close> returns
  for a missing plugin; in \<open>numberFormat\<close>, \<open>None\<close> is \<open>null\<close>.
\<close>

datatype MetaData =
    EmptyObject
  | MetaData (extension: string) (selectedCountryData: CountryData)
      (isValidNumber: bool) (numberFormat: "NumberFormat option")

text \<open>The options handed to the library's factory.\<close>

datatype i18n = fr

record Options =
  opt_autoInsertDialCode :: bool
  opt_nationalMode :: bool
  opt_i18n :: i18n
  opt_allowDropdown :: bool
  opt_autoPlaceholder :: jsval
  opt_initialCountry :: string
  opt_onlyCountries :: "string list"
  opt_preferredCountries :: "string list"
  opt_separateDialCode :: bool
  opt_customPlaceholder :: "jsval option"

text \<open>
  Function objects that can be event listeners: the method \<open>onCountryChange\<close> itself, and
  the functions made by \<open>bind\<close>, each call of which makes a new object.
\<close>

datatype fnref = OnCountryChangeMethod | BoundFn nat

text \<open>
  What the component does to its surroundings, in the order in which it does it: calls of
  the loader, of the factory, of the plugin's methods, of the element's listener registry and
  of the two host callbacks.
\<close>

datatype event =
    Load
  | Construct Options
  | GetNumber "formatKind option"
  | SetNumber string
  | GetExtension
  | GetSelectedCountryData
  | IsValidNumber
  | SetCountry string
  | Destroy
  | AddEventListener string fnref
  | RemoveEventListener string fnref
  | Update "string option" MetaData
  | OnError jsval

text \<open>
  The wrapped library is not part of the repository: it is a parameter. \<open>'p\<close> is the state
  of a plugin instance. The methods of a plugin return normally; the factory (the service's
  \<open>intlTelInput\<close>, absent until the library is loaded) either throws or returns a plugin.
\<close>

record 'p intlTelInputLib =
  p_getNumber :: "'p \<Rightarrow> formatKind option \<Rightarrow> string"
  p_setNumber :: "string \<Rightarrow> 'p \<Rightarrow> 'p"
  p_getExtension :: "'p \<Rightarrow> string"
  p_getSelectedCountryData :: "'p \<Rightarrow> CountryData"
  p_isValidNumber :: "'p \<Rightarrow> bool"
  p_setCountry :: "string \<Rightarrow> 'p \<Rightarrow> 'p"
  p_destroy :: "'p \<Rightarrow> 'p"
  intlTelInput :: "(Options \<Rightarrow> jsval + 'p) option"

text \<open>\<open>this.update\<close>: the host's callback, or the empty function put in its place.\<close>

datatype updateFn = HostUpdate | Noop

text \<open>
  The component. \<open>isDestroying\<close> and \<open>isDestroyed\<close> are the framework's flags. The input
  element is bound to one component, and is kept with it as the list of its listeners;
  \<open>bound_count\<close> numbers the function objects made by \<open>bind\<close>, and \<open>trace\<close> collects the
  events.
\<close>

record 'p PhoneInputComponent =
  args :: PhoneInputArgs
  isLoadingIntlTelInput :: bool
  update :: updateFn
  intlTelInputInstance :: "'p option"
  isDestroying :: bool
  isDestroyed :: bool
  listeners :: "(string \<times> fnref) list"
  bound_count :: nat
  trace :: "event list"

datatype error = AssertionFailed string


section \<open>The getters\<close>

definition country :: "'p PhoneInputComponent \<Rightarrow> string" where
  "country this = or_string (arg_country (args this)) []"

definition number :: "'p PhoneInputComponent \<Rightarrow> string option" where
  "number this = or_null (arg_number (args this))"

definition disabled :: "'p PhoneInputComponent \<Rightarrow> bool" where
  "disabled this = or_false (arg_disabled (args this))"

definition required :: "'p PhoneInputComponent \<Rightarrow> bool" where
  "required this = or_false (arg_required (args this))"

definition autocomplete :: "'p PhoneInputComponent \<Rightarrow> string option" where
  "autocomplete this = or_null (arg_autocomplete (args this))"

definition allowDropdown :: "'p PhoneInputComponent \<Rightarrow> bool" where
  "allowDropdown this =
     (if isPresent (arg_allowDropdown (args this))
      then (case arg_allowDropdown (args this) of Some b \<Rightarrow> b | None \<Rightarrow> True)
      else True)"

definition autoPlaceholder :: "'p PhoneInputComponent \<Rightarrow> jsval" where
  "autoPlaceholder this = js_or (arg_autoPlaceholder (args this)) (JStr ''polite'')"

definition customPlaceholder :: "'p PhoneInputComponent \<Rightarrow> jsval" where
  "customPlaceholder this = js_or (arg_customPlaceholder (args this)) JNull"

definition initialCountry :: "'p PhoneInputComponent \<Rightarrow> string" where
  "initialCountry this = or_string (arg_initialCountry (args this)) []"

definition onlyCountries :: "'p PhoneInputComponent \<Rightarrow> string list" where
  "onlyCountries this = or_array (arg_onlyCountries (args this)) []"

definition preferredCountries :: "'p PhoneInputComponent \<Rightarrow> string list" where
  "preferredCountries this = or_array (arg_preferredCountries (args this)) [''us'', ''gb'']"

definition separateDialCode :: "'p PhoneInputComponent \<Rightarrow> bool" where
  "separateDialCode this = or_false (arg_separateDialCode (args this))"


section \<open>The constructor\<close>

text \<open>
  \<open>assert\<close> is the one of a development build, which throws when its condition is false.
  The array of valid values is searched with \<open>includes\<close>, whose comparison is equality on
  the values modelled here. The second message ends in a quotation mark, the character
  \<open>0x27\<close>, which is appended to it.
\<close>

definition constructor :: "PhoneInputArgs \<Rightarrow> error + 'p PhoneInputComponent" where
  "constructor a =
     (let this = \<lparr> args = a,
                   isLoadingIntlTelInput = False,
                   update = (if arg_update a then HostUpdate else Noop),
                   intlTelInputInstance = None,
                   isDestroying = False,
                   isDestroyed = False,
                   listeners = [],
                   bound_count = 0,
                   trace = [] \<rparr>;
          validAutoPlaceholder =
            (autoPlaceholder this \<in> set [JStr ''polite'', JStr ''aggressive'', JStr ''off'', JUndefined])
      in if truthy (customPlaceholder this) \<and> typeof (customPlaceholder this) \<noteq> ''string''
         then Inl (AssertionFailed ''`customPlaceholder` must be of type string'')
         else if \<not> validAutoPlaceholder
         then Inl (AssertionFailed
                (''`autoPlaceholder` possible values are 'polite', 'aggressive' and 'off''
                 @ [CHR 0x27]))
         else Inr this)"


section \<open>Calls that leave the component\<close>

definition emit :: "event list \<Rightarrow> 'p PhoneInputComponent \<Rightarrow> 'p PhoneInputComponent" where
  "emit es this = this\<lparr> trace := trace this @ es \<rparr>"

text \<open>A method call on \<open>this.intlTelInputInstance\<close>, which the caller knows to exist.\<close>

definition call_setNumber ::
  "'p intlTelInputLib \<Rightarrow> string \<Rightarrow> 'p PhoneInputComponent \<Rightarrow> 'p PhoneInputComponent" where
  "call_setNumber L n this =
     emit [SetNumber n]
       (this\<lparr> intlTelInputInstance := map_option (p_setNumber L n) (intlTelInputInstance this) \<rparr>)"

definition call_setCountry ::
  "'p intlTelInputLib \<Rightarrow> string \<Rightarrow> 'p PhoneInputComponent \<Rightarrow> 'p PhoneInputComponent" where
  "call_setCountry L c this =
     emit [SetCountry c]
       (this\<lparr> intlTelInputInstance := map_option (p_setCountry L c) (intlTelInputInstance this) \<rparr>)"

text \<open>\<open>this.update(n, m)\<close>.\<close>

definition call_update ::
  "string option \<Rightarrow> MetaData \<Rightarrow> 'p PhoneInputComponent \<Rightarrow> 'p PhoneInputComponent" where
  "call_update n m this =
     (case update this of HostUpdate \<Rightarrow> emit [Update n m] this | Noop \<Rightarrow> this)"

text \<open>
  The element's listener registry: a pair of event type and function object is registered
  at most once, and is removed by naming the same function object.
\<close>

definition addEventListener ::
  "string \<Rightarrow> fnref \<Rightarrow> 'p PhoneInputComponent \<Rightarrow> 'p PhoneInputComponent" where
  "addEventListener ev f this =
     emit [AddEventListener ev f]
       (this\<lparr> listeners :=
                (if (ev, f) \<in> set (listeners this) then listeners this
                 else listeners this @ [(ev, f)]) \<rparr>)"

definition removeEventListener ::
  "string \<Rightarrow> fnref \<Rightarrow> 'p PhoneInputComponent \<Rightarrow> 'p PhoneInputComponent" where
  "removeEventListener ev f this =
     emit [RemoveEventListener ev f]
       (this\<lparr> listeners := filter (\<lambda>l. l \<noteq> (ev, f)) (listeners this) \<rparr>)"


section \<open>The methods\<close>

text \<open>
  \<open>metaData\<close> reads the plugin seven times, the four formatted numbers among them, and only
  then builds its result.
\<close>

definition metaData ::
  "'p intlTelInputLib \<Rightarrow> 'p option \<Rightarrow> 'p PhoneInputComponent
     \<Rightarrow> MetaData \<times> 'p PhoneInputComponent" where
  "metaData L intlTelInputPlugin this =
     (case intlTelInputPlugin of
        None \<Rightarrow> (EmptyObject, this)
      | Some p \<Rightarrow>
          (let ext = p_getExtension L p;
               scd = p_getSelectedCountryData L p;
               valid = p_isValidNumber L p;
               e164 = p_getNumber L p (Some NF_E164);
               international = p_getNumber L p (Some NF_INTERNATIONAL);
               national = p_getNumber L p (Some NF_NATIONAL);
               rfc3966 = p_getNumber L p (Some NF_RFC3966)
           in (MetaData ext scd valid
                 (if valid
                  then Some \<lparr> E164 = e164, INTERNATIONAL = international,
                              NATIONAL = national, RFC3966 = rfc3966 \<rparr>
                  else None),
               emit [GetExtension, GetSelectedCountryData, IsValidNumber,
                     GetNumber (Some NF_E164), GetNumber (Some NF_INTERNATIONAL),
                     GetNumber (Some NF_NATIONAL), GetNumber (Some NF_RFC3966)] this)))"

definition formatNumber ::
  "'p intlTelInputLib \<Rightarrow> 'p PhoneInputComponent \<Rightarrow> 'p PhoneInputComponent" where
  "formatNumber L this =
     (case intlTelInputInstance this of
        None \<Rightarrow> this
      | Some p \<Rightarrow>
          (let this1 = (if country this \<noteq> [] then call_setCountry L (country this) this
                        else this)
           in case number this1 of
                Some n \<Rightarrow> call_setNumber L n this1
              | None \<Rightarrow> this1))"


definition options :: "'p PhoneInputComponent \<Rightarrow> Options" where
  "options this =
     \<lparr> opt_autoInsertDialCode = False,
       opt_nationalMode = True,
       opt_i18n = fr,
       opt_allowDropdown = allowDropdown this,
       opt_autoPlaceholder = autoPlaceholder this,
       opt_initialCountry = initialCountry this,
       opt_onlyCountries = onlyCountries this,
       opt_preferredCountries = preferredCountries this,
       opt_separateDialCode = separateDialCode this,
       opt_customPlaceholder =
         (if truthy (customPlaceholder this) then Some (customPlaceholder this) else None) \<rparr>"

text \<open>
  \<open>setupLibrary\<close> returns what it threw, if it threw, and the component as it was then.
  The local \<open>intlTelInputInstance\<close> and the field name the same plugin, so the plugin that
  \<open>metaData\<close> reads is the field's.
\<close>

definition setupLibrary ::
  "'p intlTelInputLib \<Rightarrow> 'p PhoneInputComponent \<Rightarrow> jsval option \<times> 'p PhoneInputComponent" where
  "setupLibrary L this =
     (case intlTelInput L of
        None \<Rightarrow> (None, this)
      | Some factory \<Rightarrow>
          (let opts = options this;
               this1 = emit [Construct opts] this
           in case factory opts of
                Inl e \<Rightarrow> (Some e, this1)
              | Inr p \<Rightarrow>
                  (let p1 = (case number this1 of Some n \<Rightarrow> p_setNumber L n p | None \<Rightarrow> p);
                       this2 = (case number this1 of Some n \<Rightarrow> emit [SetNumber n] this1
                                | None \<Rightarrow> this1);
                       this3 = this2\<lparr> intlTelInputInstance := Some p1 \<rparr>;
                       this4 = (if initialCountry this3 \<noteq> []
                                then call_setCountry L (initialCountry this3) this3
                                else this3);
                       (m, this5) = metaData L (intlTelInputInstance this4) this4
                   in (None, call_update (number this5) m this5))))"

text \<open>
  \<open>loadAndSetup\<close> is asynchronous: it runs up to the \<open>await\<close>, and is resumed when the
  loader's promise has settled, with the rejection (\<open>Inl\<close>) or the fulfilment (\<open>Inr\<close>).
\<close>

definition loadAndSetup_begin :: "'p PhoneInputComponent \<Rightarrow> 'p PhoneInputComponent" where
  "loadAndSetup_begin this = emit [Load] (this\<lparr> isLoadingIntlTelInput := True \<rparr>)"

text \<open>The rest of the \<open>try\<close> block: what it threw, if it threw, and the component.\<close>

definition loadAndSetup_try ::
  "'p intlTelInputLib \<Rightarrow> jsval + unit \<Rightarrow> 'p PhoneInputComponent
     \<Rightarrow> jsval option \<times> 'p PhoneInputComponent" where
  "loadAndSetup_try L settled this =
     (case settled of
        Inl e \<Rightarrow> (Some e, this)
      | Inr u \<Rightarrow>
          if isDestroying this \<or> isDestroyed this then (None, this)
          else (case setupLibrary L this of
                  (Some e, this1) \<Rightarrow> (Some e, this1)
                | (None, this1) \<Rightarrow>
                    (let this2 = formatNumber L this1;
                         bound = BoundFn (bound_count this2);
                         this3 = this2\<lparr> bound_count := Suc (bound_count this2) \<rparr>
                     in (None, addEventListener ''countrychange'' bound this3))))"

text \<open>The \<open>catch\<close> block; an error that it handles is no longer pending.\<close>

definition loadAndSetup_catch ::
  "jsval \<Rightarrow> 'p PhoneInputComponent \<Rightarrow> jsval option \<times> 'p PhoneInputComponent" where
  "loadAndSetup_catch e this =
     (None, if arg_onError (args this) then emit [OnError e] this else this)"

definition loadAndSetup_finally :: "'p PhoneInputComponent \<Rightarrow> 'p PhoneInputComponent" where
  "loadAndSetup_finally this =
     (if \<not> isDestroying this \<and> \<not> isDestroyed this
      then this\<lparr> isLoadingIntlTelInput := False \<rparr>
      else this)"

text \<open>
  The continuation after the \<open>await\<close>. The first component of the result is the error with
  which the promise of \<open>loadAndSetup\<close> is rejected, \<open>None\<close> when it is fulfilled.
\<close>

definition loadAndSetup_resume ::
  "'p intlTelInputLib \<Rightarrow> jsval + unit \<Rightarrow> 'p PhoneInputComponent
     \<Rightarrow> jsval option \<times> 'p PhoneInputComponent" where
  "loadAndSetup_resume L settled this =
     (let (thrown, this1) = loadAndSetup_try L settled this;
          (pending, this2) = (case thrown of
                                Some e \<Rightarrow> loadAndSetup_catch e this1
                              | None \<Rightarrow> (None, this1))
      in (pending, loadAndSetup_finally this2))"

text \<open>\<open>onDidInsert\<close> starts \<open>loadAndSetup\<close> and drops its promise.\<close>

definition onDidInsert :: "'p PhoneInputComponent \<Rightarrow> 'p PhoneInputComponent" where
  "onDidInsert this = loadAndSetup_begin this"

definition onDestroy ::
  "'p intlTelInputLib \<Rightarrow> 'p PhoneInputComponent \<Rightarrow> 'p PhoneInputComponent" where
  "onDestroy L this =
     (let this1 = (case intlTelInputInstance this of
                     Some p \<Rightarrow> emit [Destroy]
                                 (this\<lparr> intlTelInputInstance := Some (p_destroy L p) \<rparr>)
                   | None \<Rightarrow> this)
      in removeEventListener ''countrychange'' OnCountryChangeMethod this1)"

text \<open>
  Modelled from the spec: the template that binds \<open>onDestroy\<close> to the removal of the element
  is missing, and so is the framework's teardown. Unmounting marks the component as
  destroying, runs \<open>onDestroy\<close> and leaves the component destroyed.
\<close>

definition unmount ::
  "'p intlTelInputLib \<Rightarrow> 'p PhoneInputComponent \<Rightarrow> 'p PhoneInputComponent" where
  "unmount L this = (onDestroy L (this\<lparr> isDestroying := True \<rparr>))\<lparr> isDestroyed := True \<rparr>"

section \<open>A sample configuration and a sample library\<close>

text \<open>
  Concrete inputs on which the theorems below are instantiated. The sample plugin stores a
  number and a country code, formats a number as it is stored and holds exactly one number
  to be valid.
\<close>

definition sampleArgs :: PhoneInputArgs where
  "sampleArgs =
     \<lparr> arg_number = Some ''+14155552671'',
       arg_update = True,
       arg_country = None,
       arg_disabled = None,
       arg_required = None,
       arg_autocomplete = None,
       arg_allowDropdown = None,
       arg_autoPlaceholder = JUndefined,
       arg_customPlaceholder = JUndefined,
       arg_initialCountry = Some ''us'',
       arg_onlyCountries = None,
       arg_preferredCountries = None,
       arg_separateDialCode = None,
       arg_onError = True \<rparr>"

definition sampleLib :: "(string \<times> string) intlTelInputLib" where
  "sampleLib =
     \<lparr> p_getNumber = (\<lambda>p k. fst p),
       p_setNumber = (\<lambda>n p. (n, snd p)),
       p_getExtension = (\<lambda>p. []),
       p_getSelectedCountryData =
         (\<lambda>p. \<lparr> iso2 = Some (snd p), name = None, dialCode = None \<rparr>),
       p_isValidNumber = (\<lambda>p. fst p = ''+14155552671''),
       p_setCountry = (\<lambda>c p. (fst p, c)),
       p_destroy = (\<lambda>p. p),
       intlTelInput = Some (\<lambda>opts. Inr ([], opt_initialCountry opts)) \<rparr>"

text \<open>The same library with a factory that throws.\<close>

definition failingLib :: "(string \<times> string) intlTelInputLib" where
  "failingLib = sampleLib\<lparr> intlTelInput := Some (\<lambda>opts. Inl (JStr ''no utils'')) \<rparr>"

text \<open>The component that the constructor makes of the sample configuration.\<close>

definition sampleComponent :: "(string \<times> string) PhoneInputComponent" where
  "sampleComponent =
     \<lparr> args = sampleArgs,
       isLoadingIntlTelInput = False,
       update = HostUpdate,
       intlTelInputInstance = None,
       isDestroying = False,
       isDestroyed = False,
       listeners = [],
       bound_count = 0,
       trace = [] \<rparr>"

text \<open>The sample component once its plugin exists, holding a number that is not valid.\<close>

definition readyComponent :: "(string \<times> string) PhoneInputComponent" where
  "readyComponent = sampleComponent\<lparr> intlTelInputInstance := Some (''123'', ''us'') \<rparr>"

text \<open>The sample component after a mount that ran to its end.\<close>

definition mountedComponent :: "(string \<times> string) PhoneInputComponent" where
  "mountedComponent =
     snd (loadAndSetup_resume sampleLib (Inr ()) (onDidInsert sampleComponent))"



section \<open>Helper facts\<close>

lemma constructor_sampleArgs: "constructor sampleArgs = Inr sampleComponent"
  by (simp add: constructor_def sampleArgs_def sampleComponent_def autoPlaceholder_def
      customPlaceholder_def js_or_def)

lemma trace_emit: "trace (emit es this) = trace this @ es"
  by (simp add: emit_def)

lemma emit_fields:
  "args (emit es this) = args this"
  "isLoadingIntlTelInput (emit es this) = isLoadingIntlTelInput this"
  "update (emit es this) = update this"
  "intlTelInputInstance (emit es this) = intlTelInputInstance this"
  "isDestroying (emit es this) = isDestroying this"
  "isDestroyed (emit es this) = isDestroyed this"
  "listeners (emit es this) = listeners this"
  "bound_count (emit es this) = bound_count this"
  by (simp_all add: emit_def)


section \<open>The metadata\<close>

text \<open>
  C6. Called without a plugin (the argument is \<open>null\<close>), \<open>metaData\<close> returns the empty
  object, a value of the metadata type and not a null, and it touches nothing.
\<close>

theorem metaData_null: "metaData L None this = (EmptyObject, this)"
  by (simp add: metaData_def)

text \<open>
  C7. For every plugin, the metadata that \<open>metaData\<close> returns holds what the plugin
  reports, and its \<open>numberFormat\<close> is the bundle of exactly the four representations E164,
  INTERNATIONAL, NATIONAL and RFC3966 when the plugin reports the number valid, and \<open>null\<close>
  when it reports it invalid.
\<close>

theorem metaData_numberFormat:
  "fst (metaData L (Some p) this) =
     MetaData (p_getExtension L p) (p_getSelectedCountryData L p) (p_isValidNumber L p)
       (if p_isValidNumber L p
        then Some \<lparr> E164 = p_getNumber L p (Some NF_E164),
                    INTERNATIONAL = p_getNumber L p (Some NF_INTERNATIONAL),
                    NATIONAL = p_getNumber L p (Some NF_NATIONAL),
                    RFC3966 = p_getNumber L p (Some NF_RFC3966) \<rparr>
        else None)"
  by (simp add: metaData_def Let_def)

text \<open>
  C1, as it is stated, fails: for the sample plugin holding the invalid number 123,
  \<open>metaData\<close> calls the formatter although the plugin reports the number invalid.
\<close>

theorem metaData_invalid_formatter_called:
  "intlTelInputInstance readyComponent = Some (''123'', ''us'')
   \<and> \<not> p_isValidNumber sampleLib (''123'', ''us'')
   \<and> trace readyComponent = []
   \<and> GetNumber (Some NF_E164)
       \<in> set (trace (snd (metaData sampleLib (intlTelInputInstance readyComponent)
                              readyComponent)))"
  by (simp add: metaData_def sampleLib_def readyComponent_def sampleComponent_def emit_def)

text \<open>
  C1, amended. For every plugin that reports the number invalid, the metadata has
  \<open>numberFormat\<close> set to \<open>null\<close>; the formatter is called all the same, once for each of
  the four format kinds, and what it returns is dropped.
\<close>

theorem metaData_invalid:
  assumes "\<not> p_isValidNumber L p"
  shows "numberFormat (fst (metaData L (Some p) this)) = None
         \<and> trace (snd (metaData L (Some p) this)) =
             trace this @ [GetExtension, GetSelectedCountryData, IsValidNumber,
                           GetNumber (Some NF_E164), GetNumber (Some NF_INTERNATIONAL),
                           GetNumber (Some NF_NATIONAL), GetNumber (Some NF_RFC3966)]"
  using assms by (simp add: metaData_def Let_def trace_emit)

theorem metaData_invalid_witness:
  "\<not> p_isValidNumber sampleLib (''123'', ''us'')
   \<and> numberFormat (fst (metaData sampleLib (Some (''123'', ''us'')) readyComponent)) = None
   \<and> trace (snd (metaData sampleLib (Some (''123'', ''us'')) readyComponent)) =
       [GetExtension, GetSelectedCountryData, IsValidNumber,
        GetNumber (Some NF_E164), GetNumber (Some NF_INTERNATIONAL),
        GetNumber (Some NF_NATIONAL), GetNumber (Some NF_RFC3966)]"
proof -
  have invalid: "\<not> p_isValidNumber sampleLib (''123'', ''us'')"
    by (simp add: sampleLib_def)
  have "trace readyComponent = []"
    by (simp add: readyComponent_def sampleComponent_def)
  with invalid metaData_invalid [OF invalid, of readyComponent] show ?thesis
    by simp
qed



section \<open>Validation in the constructor\<close>

text \<open>
  C4, as it is stated, fails: the empty string is none of \<open>aggressive\<close>, \<open>off\<close>,
  \<open>polite\<close> and \<open>undefined\<close>, and the constructor accepts it, because the getter replaces
  every falsy value by \<open>polite\<close> before the check.
\<close>

theorem constructor_autoPlaceholder_empty_accepted:
  "JStr [] \<notin> {JStr ''aggressive'', JStr ''off'', JStr ''polite'', JUndefined}
   \<and> constructor (sampleArgs\<lparr> arg_autoPlaceholder := JStr [] \<rparr>)
       = Inr (sampleComponent\<lparr> args := sampleArgs\<lparr> arg_autoPlaceholder := JStr [] \<rparr> \<rparr>)"
  by (simp add: constructor_def sampleArgs_def sampleComponent_def autoPlaceholder_def
      customPlaceholder_def js_or_def)

text \<open>
  C4, amended. For every configuration whose \<open>autoPlaceholder\<close> is truthy and none of
  \<open>aggressive\<close>, \<open>off\<close>, \<open>polite\<close> and \<open>undefined\<close>, the constructor fails with an
  assertion error.
\<close>

theorem constructor_autoPlaceholder_rejected:
  assumes "truthy (arg_autoPlaceholder a)"
    and "arg_autoPlaceholder a \<notin> {JStr ''aggressive'', JStr ''off'', JStr ''polite'', JUndefined}"
  shows "\<exists>msg. (constructor a :: error + 'p PhoneInputComponent) = Inl (AssertionFailed msg)"
  using assms by (simp add: constructor_def autoPlaceholder_def js_or_def Let_def)

theorem constructor_autoPlaceholder_rejected_witness:
  "truthy (JStr ''eager'')
   \<and> JStr ''eager'' \<notin> {JStr ''aggressive'', JStr ''off'', JStr ''polite'', JUndefined}
   \<and> (\<exists>msg. (constructor (sampleArgs\<lparr> arg_autoPlaceholder := JStr ''eager'' \<rparr>)
                 :: error + (string \<times> string) PhoneInputComponent)
              = Inl (AssertionFailed msg))"
proof -
  have t: "truthy (arg_autoPlaceholder (sampleArgs\<lparr> arg_autoPlaceholder := JStr ''eager'' \<rparr>))"
    by simp
  have n: "arg_autoPlaceholder (sampleArgs\<lparr> arg_autoPlaceholder := JStr ''eager'' \<rparr>)
             \<notin> {JStr ''aggressive'', JStr ''off'', JStr ''polite'', JUndefined}"
    by simp
  from constructor_autoPlaceholder_rejected [OF t n] t n show ?thesis
    by simp
qed

text \<open>
  C5, as it is stated, fails: the boolean \<open>false\<close> is defined and is not a string, and the
  constructor accepts it, because the check is made only for a truthy value.
\<close>

theorem constructor_customPlaceholder_false_accepted:
  "JBool False \<noteq> JUndefined \<and> typeof (JBool False) \<noteq> ''string''
   \<and> constructor (sampleArgs\<lparr> arg_customPlaceholder := JBool False \<rparr>)
       = Inr (sampleComponent\<lparr> args := sampleArgs\<lparr> arg_customPlaceholder := JBool False \<rparr> \<rparr>)"
  by (simp add: constructor_def sampleArgs_def sampleComponent_def autoPlaceholder_def
      customPlaceholder_def js_or_def)

text \<open>
  C5, amended. For every configuration in which \<open>customPlaceholder\<close> is truthy and its
  value is not a string, the constructor fails with an assertion error.
\<close>

theorem constructor_customPlaceholder_rejected:
  assumes "truthy (arg_customPlaceholder a)"
    and "typeof (arg_customPlaceholder a) \<noteq> ''string''"
  shows "(constructor a :: error + 'p PhoneInputComponent)
           = Inl (AssertionFailed ''`customPlaceholder` must be of type string'')"
  using assms by (simp add: constructor_def customPlaceholder_def js_or_def Let_def)

theorem constructor_customPlaceholder_rejected_witness:
  "truthy (JNum 5) \<and> typeof (JNum 5) \<noteq> ''string''
   \<and> (constructor (sampleArgs\<lparr> arg_customPlaceholder := JNum 5 \<rparr>)
         :: error + (string \<times> string) PhoneInputComponent)
       = Inl (AssertionFailed ''`customPlaceholder` must be of type string'')"
proof -
  have t: "truthy (arg_customPlaceholder (sampleArgs\<lparr> arg_customPlaceholder := JNum 5 \<rparr>))"
    by simp
  have n: "typeof (arg_customPlaceholder (sampleArgs\<lparr> arg_customPlaceholder := JNum 5 \<rparr>))
             \<noteq> ''string''"
    by simp
  from constructor_customPlaceholder_rejected [OF t n] t n show ?thesis
    by simp
qed


section \<open>Loading, and tearing down while loading\<close>

lemma loadAndSetup_resume_rejected:
  "loadAndSetup_resume L (Inl e) this =
     (None, loadAndSetup_finally (if arg_onError (args this) then emit [OnError e] this else this))"
  by (simp add: loadAndSetup_resume_def loadAndSetup_try_def loadAndSetup_catch_def)

lemma loadAndSetup_resume_torn_down:
  assumes "isDestroying this \<or> isDestroyed this"
  shows "loadAndSetup_resume L (Inr u) this = (None, this)"
  using assms
  by (auto simp add: loadAndSetup_resume_def loadAndSetup_try_def loadAndSetup_finally_def)

lemma loadAndSetup_finally_torn_down:
  assumes "isDestroying this \<or> isDestroyed this"
  shows "loadAndSetup_finally this = this"
  using assms by (auto simp add: loadAndSetup_finally_def)

lemma loadAndSetup_finally_fields:
  "trace (loadAndSetup_finally this) = trace this"
  "intlTelInputInstance (loadAndSetup_finally this) = intlTelInputInstance this"
  "listeners (loadAndSetup_finally this) = listeners this"
  by (simp_all add: loadAndSetup_finally_def)

lemma unmount_no_plugin:
  assumes "intlTelInputInstance this = None"
  shows "unmount L this =
           this\<lparr> isDestroying := True, isDestroyed := True,
                 listeners := filter (\<lambda>l. l \<noteq> (''countrychange'', OnCountryChangeMethod))
                                (listeners this),
                 trace := trace this
                            @ [RemoveEventListener ''countrychange'' OnCountryChangeMethod] \<rparr>"
  using assms by (simp add: unmount_def onDestroy_def removeEventListener_def emit_def)

text \<open>
  C8. When the loader's promise is fulfilled on a component that is being destroyed or is
  destroyed, \<open>loadAndSetup\<close> ends normally and leaves the component as it found it: no
  plugin has been made, no number and no country applied, no listener added, no callback
  called, and no field written.
\<close>

theorem loadAndSetup_resume_destroyed:
  assumes "isDestroying this \<or> isDestroyed this"
  shows "loadAndSetup_resume L (Inr ()) this = (None, this)"
  using assms by (rule loadAndSetup_resume_torn_down)

theorem loadAndSetup_resume_destroyed_witness:
  "(isDestroying (unmount sampleLib (onDidInsert sampleComponent))
      \<or> isDestroyed (unmount sampleLib (onDidInsert sampleComponent)))
   \<and> loadAndSetup_resume sampleLib (Inr ()) (unmount sampleLib (onDidInsert sampleComponent))
       = (None, unmount sampleLib (onDidInsert sampleComponent))"
proof -
  have d: "isDestroying (unmount sampleLib (onDidInsert sampleComponent))
             \<or> isDestroyed (unmount sampleLib (onDidInsert sampleComponent))"
    by (simp add: unmount_def)
  from loadAndSetup_resume_destroyed [OF d, of sampleLib] d show ?thesis
    by simp
qed

text \<open>
  C2, as it is stated, fails: the sample component, unmounted between the start of the
  load and its end, still has its loading flag set when the load has ended.
\<close>

theorem unmount_during_load_flag_set:
  "isLoadingIntlTelInput
     (snd (loadAndSetup_resume sampleLib (Inr ())
             (unmount sampleLib (onDidInsert sampleComponent))))"
  by (simp add: loadAndSetup_resume_torn_down unmount_def onDestroy_def
      removeEventListener_def emit_def onDidInsert_def loadAndSetup_begin_def
      sampleComponent_def)

text \<open>
  C2, amended. For every component without a plugin that is unmounted while the load is
  in flight, once the load has settled, either way, nothing has been thrown, no plugin has
  been made and none configured (the only calls were those of the loader, of
  \<open>removeEventListener\<close> and, for a failed load, of the error handler), and the loading
  flag is still set, because a destroyed component is not written to.
\<close>

theorem unmount_during_load:
  assumes "intlTelInputInstance this = None"
  shows "fst (loadAndSetup_resume L settled (unmount L (onDidInsert this))) = None
         \<and> isLoadingIntlTelInput
             (snd (loadAndSetup_resume L settled (unmount L (onDidInsert this))))
         \<and> intlTelInputInstance
             (snd (loadAndSetup_resume L settled (unmount L (onDidInsert this)))) = None
         \<and> trace (snd (loadAndSetup_resume L settled (unmount L (onDidInsert this)))) =
             trace this
               @ [Load, RemoveEventListener ''countrychange'' OnCountryChangeMethod]
               @ (case settled of
                    Inl e \<Rightarrow> if arg_onError (args this) then [OnError e] else []
                  | Inr u \<Rightarrow> [])"
proof -
  let ?begun = "onDidInsert this"
  let ?gone = "unmount L ?begun"
  have none: "intlTelInputInstance ?begun = None"
    using assms by (simp add: onDidInsert_def loadAndSetup_begin_def emit_def)
  have gone: "?gone =
      ?begun\<lparr> isDestroying := True, isDestroyed := True,
               listeners := filter (\<lambda>l. l \<noteq> (''countrychange'', OnCountryChangeMethod))
                              (listeners ?begun),
               trace := trace ?begun
                          @ [RemoveEventListener ''countrychange'' OnCountryChangeMethod] \<rparr>"
    using none by (rule unmount_no_plugin)
  have flags: "isDestroying ?gone \<or> isDestroyed ?gone"
    by (simp add: unmount_def)
  have loading: "isLoadingIntlTelInput ?gone"
    by (simp add: gone) (simp add: onDidInsert_def loadAndSetup_begin_def emit_def)
  have inst: "intlTelInputInstance ?gone = None"
    using none by (simp add: gone)
  have tr: "trace ?gone =
      trace this @ [Load, RemoveEventListener ''countrychange'' OnCountryChangeMethod]"
    by (simp add: gone) (simp add: onDidInsert_def loadAndSetup_begin_def emit_def)
  have handler: "arg_onError (args ?gone) = arg_onError (args this)"
    by (simp add: gone) (simp add: onDidInsert_def loadAndSetup_begin_def emit_def)
  show ?thesis
  proof (cases settled)
    case (Inl e)
    have "isDestroying (emit [OnError e] ?gone) \<or> isDestroyed (emit [OnError e] ?gone)"
      using flags by (simp add: emit_fields)
    then have "loadAndSetup_finally (emit [OnError e] ?gone) = emit [OnError e] ?gone"
      by (rule loadAndSetup_finally_torn_down)
    moreover have "loadAndSetup_finally ?gone = ?gone"
      using flags by (rule loadAndSetup_finally_torn_down)
    ultimately show ?thesis
      using Inl loading inst tr handler
      by (simp add: loadAndSetup_resume_rejected emit_fields trace_emit)
  next
    case (Inr u)
    then show ?thesis
      using loading inst tr loadAndSetup_resume_torn_down [OF flags, of L u]
      by simp
  qed
qed

theorem unmount_during_load_witness:
  "intlTelInputInstance sampleComponent = None
   \<and> fst (loadAndSetup_resume sampleLib (Inl (JStr ''offline''))
            (unmount sampleLib (onDidInsert sampleComponent))) = None
   \<and> isLoadingIntlTelInput
       (snd (loadAndSetup_resume sampleLib (Inl (JStr ''offline''))
               (unmount sampleLib (onDidInsert sampleComponent))))
   \<and> intlTelInputInstance
       (snd (loadAndSetup_resume sampleLib (Inl (JStr ''offline''))
               (unmount sampleLib (onDidInsert sampleComponent)))) = None
   \<and> trace (snd (loadAndSetup_resume sampleLib (Inl (JStr ''offline''))
                   (unmount sampleLib (onDidInsert sampleComponent)))) =
       [Load, RemoveEventListener ''countrychange'' OnCountryChangeMethod,
        OnError (JStr ''offline'')]"
proof -
  have n: "intlTelInputInstance sampleComponent = None"
    by (simp add: sampleComponent_def)
  have h: "arg_onError (args sampleComponent)" "trace sampleComponent = []"
    by (simp_all add: sampleComponent_def sampleArgs_def)
  from unmount_during_load [OF n, of sampleLib "Inl (JStr ''offline'')"] n h show ?thesis
    by simp
qed


section \<open>Errors while loading and constructing\<close>

lemma setupLibrary_factory_throws:
  assumes "intlTelInput L = Some factory" and "factory (options this) = Inl e"
  shows "setupLibrary L this = (Some e, emit [Construct (options this)] this)"
  using assms by (simp add: setupLibrary_def Let_def)

lemma loadAndSetup_resume_factory_throws:
  assumes "\<not> isDestroying this" and "\<not> isDestroyed this"
    and "intlTelInput L = Some factory" and "factory (options this) = Inl e"
  shows "loadAndSetup_resume L (Inr u) this =
           (None, (if arg_onError (args this)
                   then emit [Construct (options this), OnError e] this
                   else emit [Construct (options this)] this)
                  \<lparr> isLoadingIntlTelInput := False \<rparr>)"
  using assms
  by (simp add: loadAndSetup_resume_def loadAndSetup_try_def loadAndSetup_catch_def
      loadAndSetup_finally_def setupLibrary_factory_throws emit_def)

text \<open>
  C9. The promise of \<open>loadAndSetup\<close> is never rejected, so that nothing is thrown back at
  the caller. An error with which the load fails is passed to the handler \<open>onError\<close>, once,
  if there is a handler, and is dropped if there is none. The same holds for an error that
  the factory throws when the plugin is constructed, after which the component has no
  plugin and is no longer loading.
\<close>

theorem loadAndSetup_error:
  "fst (loadAndSetup_resume L settled this) = None
   \<and> trace (snd (loadAndSetup_resume L (Inl e) this)) =
       trace this @ (if arg_onError (args this) then [OnError e] else [])
   \<and> (\<not> isDestroying this \<and> \<not> isDestroyed this
        \<and> intlTelInput L = Some factory \<and> factory (options this) = Inl e
      \<longrightarrow> trace (snd (loadAndSetup_resume L (Inr ()) this)) =
            trace this @ Construct (options this)
                         # (if arg_onError (args this) then [OnError e] else [])
          \<and> intlTelInputInstance (snd (loadAndSetup_resume L (Inr ()) this)) =
              intlTelInputInstance this
          \<and> \<not> isLoadingIntlTelInput (snd (loadAndSetup_resume L (Inr ()) this)))"
proof (intro conjI impI)
  show "fst (loadAndSetup_resume L settled this) = None"
    by (simp add: loadAndSetup_resume_def loadAndSetup_catch_def
        split: prod.splits option.splits)
  show "trace (snd (loadAndSetup_resume L (Inl e) this)) =
          trace this @ (if arg_onError (args this) then [OnError e] else [])"
    by (simp add: loadAndSetup_resume_rejected loadAndSetup_finally_fields trace_emit)
next
  assume "\<not> isDestroying this \<and> \<not> isDestroyed this
          \<and> intlTelInput L = Some factory \<and> factory (options this) = Inl e"
  then have resume: "loadAndSetup_resume L (Inr ()) this =
      (None, (if arg_onError (args this)
              then emit [Construct (options this), OnError e] this
              else emit [Construct (options this)] this)
             \<lparr> isLoadingIntlTelInput := False \<rparr>)"
    by (simp add: loadAndSetup_resume_factory_throws)
  show "trace (snd (loadAndSetup_resume L (Inr ()) this)) =
          trace this @ Construct (options this)
                       # (if arg_onError (args this) then [OnError e] else [])"
    by (simp add: resume trace_emit)
  show "intlTelInputInstance (snd (loadAndSetup_resume L (Inr ()) this)) =
          intlTelInputInstance this"
    by (simp add: resume emit_fields)
  show "\<not> isLoadingIntlTelInput (snd (loadAndSetup_resume L (Inr ()) this))"
    by (simp add: resume)
qed

theorem loadAndSetup_error_witness:
  "fst (loadAndSetup_resume failingLib (Inr ()) (onDidInsert sampleComponent)) = None
   \<and> trace (snd (loadAndSetup_resume failingLib (Inl (JStr ''offline''))
                   (onDidInsert sampleComponent))) =
       [Load, OnError (JStr ''offline'')]
   \<and> trace (snd (loadAndSetup_resume failingLib (Inr ()) (onDidInsert sampleComponent))) =
       [Load, Construct (options sampleComponent), OnError (JStr ''no utils'')]
   \<and> intlTelInputInstance
       (snd (loadAndSetup_resume failingLib (Inr ()) (onDidInsert sampleComponent))) = None
   \<and> \<not> isLoadingIntlTelInput
         (snd (loadAndSetup_resume failingLib (Inr ()) (onDidInsert sampleComponent)))"
proof -
  let ?begun = "onDidInsert sampleComponent"
  let ?factory = "\<lambda>opts :: Options. (Inl (JStr ''no utils'') :: jsval + string \<times> string)"
  have begun: "\<not> isDestroying ?begun" "\<not> isDestroyed ?begun"
    "arg_onError (args ?begun)" "trace ?begun = [Load]"
    "intlTelInputInstance ?begun = None" "options ?begun = options sampleComponent"
    by (simp_all add: onDidInsert_def loadAndSetup_begin_def emit_def sampleComponent_def
        sampleArgs_def options_def allowDropdown_def autoPlaceholder_def initialCountry_def
        onlyCountries_def preferredCountries_def separateDialCode_def customPlaceholder_def)
  have lib: "intlTelInput failingLib = Some ?factory"
    by (simp add: failingLib_def)
  have throws: "?factory (options ?begun) = Inl (JStr ''no utils'')"
    by simp
  from loadAndSetup_error
         [of failingLib "Inr ()" ?begun "JStr ''offline''" ?factory]
       loadAndSetup_error
         [of failingLib "Inr ()" ?begun "JStr ''no utils''" ?factory]
       begun lib
  show ?thesis
    by simp
qed


section \<open>The listener after unmounting\<close>

text \<open>
  C3 does not hold of the code. Mounting the sample component registers the function that
  \<open>bind\<close> made as listener of \<open>countrychange\<close>; \<open>onDestroy\<close> destroys the plugin, but asks
  the element to remove the method \<open>onCountryChange\<close>, another function object, so that
  the listener is still registered on the element afterwards.
\<close>

theorem onDestroy_listener_remains:
  "listeners mountedComponent = [(''countrychange'', BoundFn 0)]
   \<and> trace (onDestroy sampleLib mountedComponent) =
       trace mountedComponent
         @ [Destroy, RemoveEventListener ''countrychange'' OnCountryChangeMethod]
   \<and> listeners (onDestroy sampleLib mountedComponent) = [(''countrychange'', BoundFn 0)]"
  by (simp add: mountedComponent_def
      loadAndSetup_resume_def loadAndSetup_try_def loadAndSetup_finally_def
      setupLibrary_def formatNumber_def metaData_def call_update_def call_setCountry_def
      call_setNumber_def addEventListener_def removeEventListener_def onDestroy_def
      onDidInsert_def loadAndSetup_begin_def emit_def Let_def
      number_def country_def initialCountry_def or_null_def or_string_def
      sampleLib_def sampleComponent_def sampleArgs_def)


section \<open>Updates of the configuration\<close>




end
